theory Spec2Isabelle
  imports Main
begin

section \<open>Job rows and the derived status\<close>

text \<open>
  A job row as the GraphQL queries of the client select it. \<open>lockedAt\<close> and \<open>lastError\<close>
  are nullable (\<open>None\<close> is \<open>null\<close>), \<open>queueName\<close> is nullable, the counters are integers.
\<close>

record job =
  taskIdentifier :: string
  queueName :: "string option"
  attempts :: int
  maxAttempts :: int
  lastError :: "string option"
  lockedAt :: "string option"

text \<open>
  The conditions of the client are JavaScript truthiness tests on nullable strings:
  \<open>null\<close> and the empty string are falsy, every other string is truthy.
\<close>

definition truthy :: "string option \<Rightarrow> bool" where
  "truthy v = (case v of None \<Rightarrow> False | Some s \<Rightarrow> s \<noteq> [])"

text \<open>\<open>getJobStatus\<close> of the job list (the list view with URL-synchronised filters).\<close>

definition getJobStatus :: "job \<Rightarrow> string" where
  "getJobStatus j =
     (if truthy (lockedAt j) then ''running''
      else if truthy (lastError j) \<and> \<not> truthy (lockedAt j) then ''failed''
      else if attempts j > 0 \<and> \<not> truthy (lastError j) \<and> \<not> truthy (lockedAt j) then ''completed''
      else ''pending'')"

text \<open>
  \<open>getJobStatus\<close> of \<open>JobDetails.jsx\<close> (the same body is in the list view that takes
  \<open>onJobSelect\<close>): a job is failed only once its attempts are used up.
\<close>

definition getJobStatus_JobDetails :: "job \<Rightarrow> string" where
  "getJobStatus_JobDetails j =
     (if truthy (lockedAt j) then ''running''
      else if attempts j \<ge> maxAttempts j \<and> truthy (lastError j) then ''failed''
      else if attempts j > 0 \<and> \<not> truthy (lastError j) \<and> \<not> truthy (lockedAt j) then ''completed''
      else ''pending'')"

text \<open>The \<open>status\<close> constant of the job-detail page that is reached by route.\<close>

definition status_JobDetails :: "job \<Rightarrow> string" where
  "status_JobDetails j =
     (if truthy (lockedAt j) then ''running''
      else if truthy (lastError j) then ''failed''
      else if attempts j > 0 then ''completed''
      else ''pending'')"

text \<open>A job that failed once and waits for its next attempt.\<close>

definition job_awaiting_retry :: job where
  "job_awaiting_retry =
     \<lparr>taskIdentifier = ''send_email'', queueName = None, attempts = 1, maxAttempts = 25,
      lastError = Some ''boom'', lockedAt = None\<rparr>"

text \<open>A job whose failed attempt left an empty error message.\<close>

definition job_empty_error :: job where
  "job_empty_error =
     \<lparr>taskIdentifier = ''send_email'', queueName = None, attempts = 25, maxAttempts = 25,
      lastError = Some '''', lockedAt = None\<rparr>"


section \<open>Server-side status filter of the job list\<close>

text \<open>
  The filter object that \<open>buildFilter\<close> hands to the \<open>allJobs\<close> connection. Its keys are
  columns with one operator each, and \<open>and\<close> with a list of such single-column filters.
\<close>

datatype pgvalue = Null | Text string | Integer int

datatype column = TaskIdentifier | QueueName | Attempts | LastError | LockedAt

datatype operator = IsNull bool | EqualTo pgvalue | GreaterThan int

record jobFilter =
  filter_taskIdentifier :: "operator option"
  filter_queueName :: "operator option"
  filter_lockedAt :: "operator option"
  filter_and :: "(column \<times> operator) list option"

definition emptyFilter :: jobFilter where
  "emptyFilter =
     \<lparr>filter_taskIdentifier = None, filter_queueName = None, filter_lockedAt = None,
      filter_and = None\<rparr>"

text \<open>
  \<open>buildFilter\<close> reads the task, queue and status filters of the view's state; here they
  are its arguments. The result is \<open>None\<close> (\<open>undefined\<close>) when no key was set.
\<close>

definition buildFilter :: "string \<Rightarrow> string \<Rightarrow> string \<Rightarrow> jobFilter option" where
  "buildFilter taskFilter queueFilter statusFilter =
     (let filter0 = emptyFilter;
          filter1 = (if taskFilter \<noteq> ''all''
                     then filter0\<lparr>filter_taskIdentifier := Some (EqualTo (Text taskFilter))\<rparr>
                     else filter0);
          filter2 = (if queueFilter \<noteq> ''all''
                     then filter1\<lparr>filter_queueName := Some (EqualTo (Text queueFilter))\<rparr>
                     else filter1);
          filter3 =
            (if statusFilter = ''running''
               then filter2\<lparr>filter_lockedAt := Some (IsNull False)\<rparr>
             else if statusFilter = ''failed''
               then filter2\<lparr>filter_and :=
                      Some [(LastError, IsNull False), (LockedAt, IsNull True)]\<rparr>
             else if statusFilter = ''completed''
               then filter2\<lparr>filter_and :=
                      Some [(Attempts, GreaterThan 0), (LastError, IsNull True),
                            (LockedAt, IsNull True)]\<rparr>
             else if statusFilter = ''pending''
               then filter2\<lparr>filter_and :=
                      Some [(LockedAt, IsNull True), (Attempts, EqualTo (Integer 0))]\<rparr>
             else filter2)
      in if filter3 = emptyFilter then None else Some filter3)"

text \<open>
  What the filter means is decided by the connection-filter plugin of the API gateway, which
  is not part of this repository. Its documented meaning is modelled here: \<open>isNull\<close> tests
  the column for SQL \<open>NULL\<close>, \<open>equalTo\<close> and \<open>greaterThan\<close> compare a non-null column, the
  keys of one object and the members of \<open>and\<close> are all required.
\<close>

definition column_value :: "job \<Rightarrow> column \<Rightarrow> pgvalue" where
  "column_value j c =
     (case c of
        TaskIdentifier \<Rightarrow> Text (taskIdentifier j)
      | QueueName \<Rightarrow> (case queueName j of None \<Rightarrow> Null | Some q \<Rightarrow> Text q)
      | Attempts \<Rightarrow> Integer (attempts j)
      | LastError \<Rightarrow> (case lastError j of None \<Rightarrow> Null | Some e \<Rightarrow> Text e)
      | LockedAt \<Rightarrow> (case lockedAt j of None \<Rightarrow> Null | Some t \<Rightarrow> Text t))"

fun operator_holds :: "operator \<Rightarrow> pgvalue \<Rightarrow> bool" where
  "operator_holds (IsNull b) v = ((v = Null) = b)"
| "operator_holds (EqualTo w) v = (v \<noteq> Null \<and> v = w)"
| "operator_holds (GreaterThan n) v = (case v of Integer m \<Rightarrow> n < m | _ \<Rightarrow> False)"

definition key_holds :: "job \<Rightarrow> column \<Rightarrow> operator option \<Rightarrow> bool" where
  "key_holds j c f = (case f of None \<Rightarrow> True | Some p \<Rightarrow> operator_holds p (column_value j c))"

definition satisfiesFilter :: "jobFilter option \<Rightarrow> job \<Rightarrow> bool" where
  "satisfiesFilter fo j =
     (case fo of
        None \<Rightarrow> True
      | Some f \<Rightarrow>
          key_holds j TaskIdentifier (filter_taskIdentifier f)
          \<and> key_holds j QueueName (filter_queueName f)
          \<and> key_holds j LockedAt (filter_lockedAt f)
          \<and> (case filter_and f of
                None \<Rightarrow> True
              | Some cs \<Rightarrow> list_all (\<lambda>(c, p). operator_holds p (column_value j c)) cs))"

text \<open>A job that was rescheduled with its attempts reset and its last error kept.\<close>

definition job_reset_with_error :: job where
  "job_reset_with_error =
     \<lparr>taskIdentifier = ''send_email'', queueName = None, attempts = 0, maxAttempts = 25,
      lastError = Some ''boom'', lockedAt = None\<rparr>"

section \<open>Dashboard statistics\<close>

record jobStats =
  total :: int
  pending :: int
  running :: int
  failed :: int
  completed :: int

text \<open>The four predicates of \<open>jobStats\<close> in \<open>App.jsx\<close>, computed from all job rows.\<close>

definition App_pending :: "job \<Rightarrow> bool" where
  "App_pending j = (\<not> truthy (lockedAt j) \<and> attempts j < maxAttempts j)"

definition App_running :: "job \<Rightarrow> bool" where
  "App_running j = truthy (lockedAt j)"

definition App_failed :: "job \<Rightarrow> bool" where
  "App_failed j = (truthy (lastError j) \<and> \<not> truthy (lockedAt j))"

definition App_completed :: "job \<Rightarrow> bool" where
  "App_completed j = (attempts j > 0 \<and> \<not> truthy (lastError j) \<and> \<not> truthy (lockedAt j))"


text \<open>
  The four predicates of \<open>stats\<close> in the Dashboard component, used when no \<open>jobStats\<close> is
  passed to it.
\<close>

definition Dashboard_pending :: "job \<Rightarrow> bool" where
  "Dashboard_pending j = (\<not> truthy (lockedAt j) \<and> attempts j < maxAttempts j)"

definition Dashboard_running :: "job \<Rightarrow> bool" where
  "Dashboard_running j = truthy (lockedAt j)"

definition Dashboard_failed :: "job \<Rightarrow> bool" where
  "Dashboard_failed j = (attempts j \<ge> maxAttempts j \<and> truthy (lastError j))"

definition Dashboard_completed :: "job \<Rightarrow> bool" where
  "Dashboard_completed j = (attempts j > 0 \<and> \<not> truthy (lastError j) \<and> \<not> truthy (lockedAt j))"

definition Dashboard_stats :: "jobStats option \<Rightarrow> job list \<Rightarrow> jobStats" where
  "Dashboard_stats jobStats jobs =
     (case jobStats of
        Some s \<Rightarrow> s
      | None \<Rightarrow>
          \<lparr>total = int (length jobs),
           pending = int (length (filter Dashboard_pending jobs)),
           running = int (length (filter Dashboard_running jobs)),
           failed = int (length (filter Dashboard_failed jobs)),
           completed = int (length (filter Dashboard_completed jobs))\<rparr>)"

text \<open>
  The spec's data model, for the words ``consistent fields'': the attempts counter is
  bounded by max-attempts, a last error is present only after a failed attempt, and a
  present text or timestamp is not empty.
\<close>

definition consistent_fields :: "job \<Rightarrow> bool" where
  "consistent_fields j =
     (0 \<le> attempts j \<and> 1 \<le> maxAttempts j \<and> attempts j \<le> maxAttempts j
      \<and> (lastError j = None \<or> 0 < attempts j)
      \<and> lastError j \<noteq> Some [] \<and> lockedAt j \<noteq> Some [])"

text \<open>A job in its last attempt: locked by a worker, the earlier failure still recorded.\<close>

definition job_in_last_attempt :: job where
  "job_in_last_attempt =
     \<lparr>taskIdentifier = ''send_email'', queueName = None, attempts = 25, maxAttempts = 25,
      lastError = Some ''boom'', lockedAt = Some ''2025-01-01T00:00:00+00:00''\<rparr>"

text \<open>
  The later \<open>App.jsx\<close> asks the server for four counts and derives \<open>pending\<close>. A count
  that is missing from the response (\<open>data\<close> not loaded, or that part of the query failed)
  is \<open>None\<close>.
\<close>

record dashboardData =
  data_total :: "int option"
  data_running :: "int option"
  data_failed :: "int option"
  data_completed :: "int option"

text \<open>\<open>x ?? 0\<close> and \<open>x || 0\<close> on counts.\<close>

definition nullish_zero :: "int option \<Rightarrow> int" where
  "nullish_zero x = (case x of None \<Rightarrow> 0 | Some n \<Rightarrow> n)"

definition or_zero :: "int \<Rightarrow> int" where
  "or_zero x = (if x = 0 then 0 else x)"

definition jobStats_counts :: "dashboardData \<Rightarrow> jobStats" where
  "jobStats_counts d =
     (let counts_total = nullish_zero (data_total d);
          counts_running = nullish_zero (data_running d);
          counts_failed = nullish_zero (data_failed d);
          counts_completed = nullish_zero (data_completed d)
      in \<lparr>total = counts_total,
          pending = max 0 (or_zero counts_total - or_zero counts_running
                           - or_zero counts_failed - or_zero counts_completed),
          running = counts_running,
          failed = counts_failed,
          completed = counts_completed\<rparr>)"



section \<open>Action mutations of the API gateway\<close>

text \<open>
  A resolver gets the job identifier (\<open>args.jobId\<close>) and the database client of the
  request (\<open>context.pgClient\<close>). The client is a function from the query, its SQL text and
  its values, to the outcome of the awaited \<open>pgClient.query\<close>: \<open>Inl\<close> is the error it
  throws, \<open>Inr\<close> its result. The world records the queries that were sent and the lines
  written with \<open>console.error\<close>. A resolver returns \<open>Inr\<close> of its boolean; \<open>Inl\<close> would
  be an error that leaves the resolver and reaches the client.
\<close>

datatype pgerror = PgError string

datatype sqlvalue = SqlText string | SqlArray "sqlvalue list"

type_synonym pgquery = "string \<times> sqlvalue list"

type_synonym 'r pgClient = "pgquery \<Rightarrow> pgerror + 'r"

record world =
  queries :: "pgquery list"
  console_error :: "(string \<times> pgerror) list"

definition retryJob_query :: "string \<Rightarrow> pgquery" where
  "retryJob_query jobId =
     (''SELECT graphile_worker.reschedule_jobs($1::bigint[], NOW())'',
      [SqlArray [SqlText jobId]])"

definition retryJob :: "'r pgClient \<Rightarrow> string \<Rightarrow> world \<Rightarrow> (pgerror + bool) \<times> world" where
  "retryJob pgClient jobId w =
     (let w1 = w\<lparr>queries := queries w @ [retryJob_query jobId]\<rparr>
      in case pgClient (retryJob_query jobId) of
           Inr _ \<Rightarrow> (Inr True, w1)
         | Inl error \<Rightarrow>
             (Inr False,
              w1\<lparr>console_error := console_error w1 @ [(''Error retrying job:'', error)]\<rparr>))"

definition cancelJob_query :: "string \<Rightarrow> pgquery" where
  "cancelJob_query jobId =
     (''SELECT graphile_worker.permanently_fail_jobs($1::bigint[], $2)'',
      [SqlArray [SqlText jobId], SqlText ''Cancelled by user''])"

definition cancelJob :: "'r pgClient \<Rightarrow> string \<Rightarrow> world \<Rightarrow> (pgerror + bool) \<times> world" where
  "cancelJob pgClient jobId w =
     (let w1 = w\<lparr>queries := queries w @ [cancelJob_query jobId]\<rparr>
      in case pgClient (cancelJob_query jobId) of
           Inr _ \<Rightarrow> (Inr True, w1)
         | Inl error \<Rightarrow>
             (Inr False,
              w1\<lparr>console_error := console_error w1 @ [(''Error cancelling job:'', error)]\<rparr>))"

definition completeJob_query :: "string \<Rightarrow> pgquery" where
  "completeJob_query jobId =
     (''SELECT graphile_worker.complete_jobs($1::bigint[])'',
      [SqlArray [SqlText jobId]])"

definition completeJob :: "'r pgClient \<Rightarrow> string \<Rightarrow> world \<Rightarrow> (pgerror + bool) \<times> world" where
  "completeJob pgClient jobId w =
     (let w1 = w\<lparr>queries := queries w @ [completeJob_query jobId]\<rparr>
      in case pgClient (completeJob_query jobId) of
           Inr _ \<Rightarrow> (Inr True, w1)
         | Inl error \<Rightarrow>
             (Inr False,
              w1\<lparr>console_error := console_error w1 @ [(''Error completing job:'', error)]\<rparr>))"

section \<open>Polling intervals\<close>

text \<open>
  Every \<open>useQuery\<close> call of the client that sets \<open>pollInterval\<close>, with its value in
  milliseconds: the dashboard query of \<open>App.jsx\<close> over all job rows and the later one over
  server-side counts, the two job lists, the queues view, \<open>JobDetails.jsx\<close> and the
  job-detail page that is reached by route.
\<close>

datatype poller =
  App_nodes | App_counts | JobList | JobList_onJobSelect | Queues | JobDetails | JobDetails_page

fun pollInterval :: "poller \<Rightarrow> nat" where
  "pollInterval App_nodes = 5000"
| "pollInterval App_counts = 30000"
| "pollInterval JobList = 5000"
| "pollInterval JobList_onJobSelect = 5000"
| "pollInterval Queues = 15000"
| "pollInterval JobDetails = 2000"
| "pollInterval JobDetails_page = 10000"

section \<open>Numbers in text: \<open>String\<close> and \<open>parseInt\<close>\<close>

text \<open>
  The numbers of the client are double-precision floating-point numbers. The ones that the
  views compute with are whole: a number is \<open>NaN\<close>, an integer that a double holds, or an
  infinity. Every integer up to \<open>2 ^ 53\<close> is held exactly; above, the doubles are
  \<open>spacing\<close> apart, and an integer in between is rounded to the nearest of them, to the one
  with the even significand when it lies half-way (\<open>roundEven\<close>; \<open>double\<close> with a sign).
  From \<open>2 ^ 1024\<close> on, the rounded value is an infinity.
\<close>

datatype number = NaN | Finite int | Infinity | NegInfinity

function spacing :: "nat \<Rightarrow> nat" where
  "spacing m = (if m < 2 ^ 53 then 1 else 2 * spacing (m div 2))"
  by pat_completeness auto

termination
proof (relation "measure id")
  show "wf (measure id)" by simp
next
  fix m :: nat
  assume "\<not> m < 2 ^ 53"
  then have "0 < m" by (cases "m = 0") simp_all
  then show "(m div 2, m) \<in> measure id" by simp
qed

declare spacing.simps [simp del]

definition roundEven :: "nat \<Rightarrow> nat" where
  "roundEven m =
     (let q = spacing m; d = m div q; r = m mod q
      in if 2 * r < q \<or> (2 * r = q \<and> even d) then d * q else (d + 1) * q)"

definition double :: "int \<Rightarrow> int" where
  "double n = (if n < 0 then - int (roundEven (nat (- n))) else int (roundEven (nat n)))"

definition toNumber :: "int \<Rightarrow> number" where
  "toNumber n =
     (if 2 ^ 1024 \<le> double n then Infinity
      else if double n \<le> - (2 ^ 1024) then NegInfinity
      else Finite (double n))"

text \<open>
  Strings are sequences of bytes, in UTF-8. These are the white-space and line-terminator
  characters that \<open>parseInt\<close> skips: tab, line feed, vertical tab, form feed, carriage
  return, space, U+00A0, U+1680, U+2000 to U+200A, U+2028, U+2029, U+202F, U+205F, U+3000
  and U+FEFF.
\<close>

definition whiteSpace :: "string list" where
  "whiteSpace =
     [[CHR 0x09], [CHR 0x0A], [CHR 0x0B], [CHR 0x0C], [CHR 0x0D], [CHR 0x20],
      [CHR 0xC2, CHR 0xA0], [CHR 0xE1, CHR 0x9A, CHR 0x80],
      [CHR 0xE2, CHR 0x80, CHR 0x80], [CHR 0xE2, CHR 0x80, CHR 0x81],
      [CHR 0xE2, CHR 0x80, CHR 0x82], [CHR 0xE2, CHR 0x80, CHR 0x83],
      [CHR 0xE2, CHR 0x80, CHR 0x84], [CHR 0xE2, CHR 0x80, CHR 0x85],
      [CHR 0xE2, CHR 0x80, CHR 0x86], [CHR 0xE2, CHR 0x80, CHR 0x87],
      [CHR 0xE2, CHR 0x80, CHR 0x88], [CHR 0xE2, CHR 0x80, CHR 0x89],
      [CHR 0xE2, CHR 0x80, CHR 0x8A], [CHR 0xE2, CHR 0x80, CHR 0xA8],
      [CHR 0xE2, CHR 0x80, CHR 0xA9], [CHR 0xE2, CHR 0x80, CHR 0xAF],
      [CHR 0xE2, CHR 0x81, CHR 0x9F], [CHR 0xE3, CHR 0x80, CHR 0x80],
      [CHR 0xEF, CHR 0xBB, CHR 0xBF]]"

definition whiteSpacePrefix :: "string \<Rightarrow> string option" where
  "whiteSpacePrefix s = find (\<lambda>w. take (length w) s = w) whiteSpace"

function skipWhiteSpace :: "string \<Rightarrow> string" where
  "skipWhiteSpace s =
     (case whiteSpacePrefix s of
        None \<Rightarrow> s
      | Some w \<Rightarrow> skipWhiteSpace (drop (length w) s))"
  by pat_completeness auto

termination
proof (relation "measure length")
  show "wf (measure length)" by simp
next
  fix s w
  assume "whiteSpacePrefix s = Some w"
  then have w: "take (length w) s = w" "w \<in> set whiteSpace"
    by (auto simp add: whiteSpacePrefix_def find_Some_iff)
  from w(2) have "w \<noteq> []" by (auto simp add: whiteSpace_def)
  moreover have "min (length w) (length s) = length w"
    using arg_cong [OF w(1), of length] by simp
  ultimately have "0 < length w \<and> length w \<le> length s" by (cases w) simp_all
  then have "length s - length w < length s" by arith
  then show "(drop (length w) s, s) \<in> measure length" by simp
qed

declare skipWhiteSpace.simps [simp del]

definition isDigit :: "char \<Rightarrow> bool" where
  "isDigit c = (c \<in> set ''0123456789'')"

definition digitValue :: "char \<Rightarrow> int" where
  "digitValue c = int (length (takeWhile (\<lambda>d. d \<noteq> c) ''0123456789''))"

text \<open>
  \<open>parseInt s 10\<close>: skip the leading white space, read an optional sign and the longest
  run of decimal digits; with no digit the result is \<open>NaN\<close>, otherwise the number for the
  integer that was read, all of its digits counted. A negative zero is not told from zero.
\<close>

definition parseInt :: "string \<Rightarrow> number" where
  "parseInt inputString =
     (let S = skipWhiteSpace inputString;
          sign = (if S \<noteq> [] \<and> hd S = CHR ''-'' then - 1 else 1);
          S1 = (if S \<noteq> [] \<and> (hd S = CHR ''+'' \<or> hd S = CHR ''-'') then tl S else S);
          Z = takeWhile isDigit S1
      in if Z = [] then NaN else toNumber (sign * foldl (\<lambda>a c. 10 * a + digitValue c) 0 Z))"

definition digitChar :: "nat \<Rightarrow> char" where
  "digitChar d = ''0123456789'' ! d"

fun digitsOf :: "nat \<Rightarrow> string" where
  "digitsOf n = (if n < 10 then [digitChar n] else digitsOf (n div 10) @ [digitChar (n mod 10)])"

declare digitsOf.simps [simp del]

text \<open>
  \<open>String(n)\<close> for a whole number \<open>n\<close> writes the shortest decimal that reads back as
  \<open>n\<close>: of the decimals with \<open>k\<close> significant digits, the two next to \<open>n\<close> are tried,
  the nearer first, for \<open>k\<close> from 1 to 17. Up to 21 digits are written out in full;
  a longer decimal is written with an exponent.
\<close>

definition candidates :: "nat \<Rightarrow> nat \<Rightarrow> nat list" where
  "candidates x k =
     (let u = 10 ^ (length (digitsOf x) - k); lo = (x div u) * u; hi = lo + u
      in if x - lo < hi - x \<or> (x - lo = hi - x \<and> even (x div u)) then [lo, hi] else [hi, lo])"

definition shortestDecimal :: "nat \<Rightarrow> nat" where
  "shortestDecimal x =
     (case find (\<lambda>v. roundEven v = x) (concat (map (candidates x) [1..<18])) of
        None \<Rightarrow> x
      | Some v \<Rightarrow> v)"

definition numberDigits :: "nat \<Rightarrow> string" where
  "numberDigits x =
     (let ds = digitsOf (shortestDecimal x);
          n = length ds;
          s = rev (dropWhile (\<lambda>c. c = CHR ''0'') (rev ds))
      in if n \<le> 21 then ds
         else (if length s = 1 then s else hd s # CHR ''.'' # tl s) @ ''e+'' @ digitsOf (n - 1))"

definition String_number :: "int \<Rightarrow> string" where
  "String_number n = (if n < 0 then CHR ''-'' # numberDigits (nat (- n)) else numberDigits (nat n))"

text \<open>\<open>v || d\<close> on a nullable string: \<open>null\<close> and the empty string give the default.\<close>

definition or_default :: "string option \<Rightarrow> string \<Rightarrow> string" where
  "or_default v d = (case v of None \<Rightarrow> d | Some s \<Rightarrow> if s = [] then d else s)"

section \<open>Pagination controls\<close>

text \<open>
  The five controls of the Pagination component. The result is the page index that the
  control passes to \<open>onPageChange\<close>; \<open>None\<close> when it passes none: the button is disabled,
  or the typed text is not a number. The typed number can be any number that \<open>parseInt\<close>
  returns, also an infinity, so the subtraction on it rounds; the page count and the
  current index are those of a result set, where the arithmetic is exact.
\<close>

datatype control = First | Previous | PageInput string | Next | Last

definition Pagination_onPageChange :: "int \<Rightarrow> int \<Rightarrow> bool \<Rightarrow> bool \<Rightarrow> control \<Rightarrow> int option" where
  "Pagination_onPageChange currentPage totalPages hasNextPage hasPreviousPage ctl =
     (case ctl of
        First \<Rightarrow> if currentPage = 0 then None else Some 0
      | Previous \<Rightarrow> if \<not> hasPreviousPage then None else Some (max 0 (currentPage - 1))
      | PageInput v \<Rightarrow>
          (case parseInt (or_default (Some v) ''1'') of
             NaN \<Rightarrow> None
           | Finite p \<Rightarrow> Some (min (max (double (p - 1)) 0) (totalPages - 1))
           | Infinity \<Rightarrow> Some (totalPages - 1)
           | NegInfinity \<Rightarrow> Some (min 0 (totalPages - 1)))
      | Next \<Rightarrow> if \<not> hasNextPage then None else Some (min (currentPage + 1) (totalPages - 1))
      | Last \<Rightarrow> if currentPage \<ge> totalPages - 1 then None else Some (totalPages - 1))"

section \<open>Job list: filter state and the URL\<close>

text \<open>
  The query parameters of the page, as \<open>URLSearchParams\<close> holds them: a list of names and
  values. \<open>get\<close> returns the first value of a name, \<open>set\<close> replaces the first entry of a
  name and removes its other entries, or appends. Writing the parameters into the address
  and parsing them back is taken to lose nothing.
\<close>

type_synonym searchParams = "(string \<times> string) list"

definition params_get :: "searchParams \<Rightarrow> string \<Rightarrow> string option" where
  "params_get ps k = map_of ps k"

fun params_set :: "searchParams \<Rightarrow> string \<Rightarrow> string \<Rightarrow> searchParams" where
  "params_set [] k v = [(k, v)]"
| "params_set ((k', v') # ps) k v =
     (if k' = k then (k, v) # filter (\<lambda>(a, b). a \<noteq> k) ps else (k', v') # params_set ps k v)"

record filterState =
  searchTerm :: string
  statusFilter :: string
  taskFilter :: string
  queueFilter :: string
  currentPage :: int

text \<open>
  The page index read from the \<open>page\<close> parameter, which is 1-based: \<open>p - 1\<close> when the
  parsed number is finite and positive, 0 otherwise.
\<close>

definition pageIndex :: "searchParams \<Rightarrow> int" where
  "pageIndex searchParams =
     (case parseInt (or_default (params_get searchParams ''page'') ''1'') of
        Finite p \<Rightarrow> if p > 0 then double (p - 1) else 0
      | _ \<Rightarrow> 0)"

text \<open>The initialisers of the five \<open>useState\<close> calls.\<close>

definition initialState :: "searchParams \<Rightarrow> filterState" where
  "initialState searchParams =
     \<lparr>searchTerm = or_default (params_get searchParams ''q'') [],
      statusFilter = or_default (params_get searchParams ''status'') ''all'',
      taskFilter = or_default (params_get searchParams ''task'') ''all'',
      queueFilter = or_default (params_get searchParams ''queue'') ''all'',
      currentPage = pageIndex searchParams\<rparr>"

text \<open>
  The effect that keeps the URL in sync with the state. It builds \<open>params\<close> and replaces
  the page's parameters when their text differs, so afterwards the page's parameters are
  \<open>params\<close>.
\<close>

definition stateToParams :: "filterState \<Rightarrow> searchParams" where
  "stateToParams st =
     (let params0 = [];
          params1 = (if searchTerm st \<noteq> []
                     then params_set params0 ''q'' (searchTerm st) else params0);
          params2 = (if statusFilter st \<noteq> [] \<and> statusFilter st \<noteq> ''all''
                     then params_set params1 ''status'' (statusFilter st) else params1);
          params3 = (if taskFilter st \<noteq> [] \<and> taskFilter st \<noteq> ''all''
                     then params_set params2 ''task'' (taskFilter st) else params2);
          params4 = (if queueFilter st \<noteq> [] \<and> queueFilter st \<noteq> ''all''
                     then params_set params3 ''queue'' (queueFilter st) else params3);
          pageOneBased = double (or_zero (currentPage st) + 1)
      in if pageOneBased \<noteq> 1 then params_set params4 ''page'' (String_number pageOneBased)
         else params4)"

text \<open>The effect that updates the state when the URL changes.\<close>

definition stateFromUrl :: "searchParams \<Rightarrow> filterState \<Rightarrow> filterState" where
  "stateFromUrl searchParams st =
     (let q = or_default (params_get searchParams ''q'') [];
          status = or_default (params_get searchParams ''status'') ''all'';
          task = or_default (params_get searchParams ''task'') ''all'';
          queue = or_default (params_get searchParams ''queue'') ''all'';
          pageIdx = pageIndex searchParams;
          st1 = (if q \<noteq> searchTerm st then st\<lparr>searchTerm := q\<rparr> else st);
          st2 = (if status \<noteq> statusFilter st1 then st1\<lparr>statusFilter := status\<rparr> else st1);
          st3 = (if task \<noteq> taskFilter st2 then st2\<lparr>taskFilter := task\<rparr> else st2);
          st4 = (if queue \<noteq> queueFilter st3 then st3\<lparr>queueFilter := queue\<rparr> else st3)
      in if pageIdx \<noteq> currentPage st4 then st4\<lparr>currentPage := pageIdx\<rparr> else st4)"

text \<open>
  The handler of the search box and of the select controls. The selects offer \<open>all\<close>,
  the four status names and the task and queue names that the server reports, none of
  them empty.
\<close>

definition handleFilterChange :: "string \<Rightarrow> string \<Rightarrow> filterState \<Rightarrow> filterState" where
  "handleFilterChange filterType v st =
     (let st0 = st\<lparr>currentPage := 0\<rparr>;
          st1 = (if filterType = ''status'' then st0\<lparr>statusFilter := v\<rparr> else st0);
          st2 = (if filterType = ''task'' then st1\<lparr>taskFilter := v\<rparr> else st1)
      in if filterType = ''search'' then st2\<lparr>searchTerm := v\<rparr> else st2)"

text \<open>A filter state of the list: a search, two filters and the twelfth page.\<close>

definition failed_mail_page_12 :: filterState where
  "failed_mail_page_12 =
     \<lparr>searchTerm = ''mail'', statusFilter = ''failed'', taskFilter = ''all'',
      queueFilter = ''default'', currentPage = 11\<rparr>"

text \<open>
  The states that the view takes from two addresses with a large page number: page
  9007199254740994, and page \<open>10 ^ 21\<close>.
\<close>

definition page_above_2_53 :: filterState where
  "page_above_2_53 = initialState [(''page'', ''9007199254740994'')]"

definition page_10_21 :: filterState where
  "page_10_21 = initialState [(''page'', ''1000000000000000000000'')]"

section \<open>Derived status\<close>

text \<open>
  C1, as stated, fails. It says that every view derives \<open>failed\<close> for a job with a
  non-null last error and no lock, whatever its attempts. \<open>getJobStatus\<close> of
  \<open>JobDetails.jsx\<close> derives \<open>pending\<close> for a job that failed once and has attempts left;
  and an empty error message is non-null but falsy, so the job list derives \<open>completed\<close>
  for it.
\<close>

theorem failed_status_counterexample:
  "lastError job_awaiting_retry \<noteq> None \<and> lockedAt job_awaiting_retry = None
   \<and> getJobStatus_JobDetails job_awaiting_retry = ''pending''
   \<and> lastError job_empty_error \<noteq> None \<and> lockedAt job_empty_error = None
   \<and> getJobStatus job_empty_error = ''completed''"
  by (simp add: job_awaiting_retry_def job_empty_error_def getJobStatus_JobDetails_def
      getJobStatus_def truthy_def)

text \<open>
  C1, amended. For every job with a non-null, non-empty last error and a null lock
  timestamp, \<open>getJobStatus\<close> of the job list and the status of the routed job-detail page
  are \<open>failed\<close> whatever the attempts and max-attempts fields are; \<open>getJobStatus\<close> of
  \<open>JobDetails.jsx\<close> is \<open>failed\<close> when the attempts have reached max-attempts and
  \<open>pending\<close> otherwise.
\<close>

theorem failed_status_without_lock:
  assumes "lastError j = Some e" and "e \<noteq> []" and "lockedAt j = None"
  shows "getJobStatus j = ''failed'' \<and> status_JobDetails j = ''failed''
         \<and> getJobStatus_JobDetails j
             = (if attempts j \<ge> maxAttempts j then ''failed'' else ''pending'')"
  using assms
  by (simp add: getJobStatus_def status_JobDetails_def getJobStatus_JobDetails_def truthy_def)

theorem failed_status_without_lock_witness:
  "lastError job_awaiting_retry = Some ''boom'' \<and> lockedAt job_awaiting_retry = None
   \<and> getJobStatus job_awaiting_retry = ''failed''
   \<and> status_JobDetails job_awaiting_retry = ''failed''
   \<and> getJobStatus_JobDetails job_awaiting_retry = ''pending''"
  using failed_status_without_lock [of job_awaiting_retry "''boom''"]
  by (simp add: job_awaiting_retry_def)

section \<open>Server-side filter against the client's status\<close>

lemmas filter_defs =
  buildFilter_def satisfiesFilter_def key_holds_def column_value_def emptyFilter_def

lemma truthy_present: "v \<noteq> Some [] \<Longrightarrow> truthy v = (v \<noteq> None)"
  by (cases v) (simp_all add: truthy_def)

text \<open>
  What each status adds to the filter of the task and the queue (status \<open>all\<close> adds
  nothing), in terms of the columns.
\<close>

lemma buildFilter_running:
  "satisfiesFilter (buildFilter t q ''running'') j
     = (satisfiesFilter (buildFilter t q ''all'') j \<and> lockedAt j \<noteq> None)"
  by (auto simp add: filter_defs Let_def split: option.splits)

lemma buildFilter_failed:
  "satisfiesFilter (buildFilter t q ''failed'') j
     = (satisfiesFilter (buildFilter t q ''all'') j \<and> lastError j \<noteq> None \<and> lockedAt j = None)"
  by (auto simp add: filter_defs Let_def split: option.splits)

lemma buildFilter_completed:
  "satisfiesFilter (buildFilter t q ''completed'') j
     = (satisfiesFilter (buildFilter t q ''all'') j
        \<and> 0 < attempts j \<and> lastError j = None \<and> lockedAt j = None)"
  by (auto simp add: filter_defs Let_def split: option.splits)

lemma buildFilter_pending:
  "satisfiesFilter (buildFilter t q ''pending'') j
     = (satisfiesFilter (buildFilter t q ''all'') j \<and> lockedAt j = None \<and> attempts j = 0)"
  by (auto simp add: filter_defs Let_def split: option.splits)

text \<open>
  C2, as stated, fails. A job with no lock, no attempts and a last error satisfies the
  filter built for \<open>pending\<close>, and the client derives \<open>failed\<close> for it; a job whose last
  error is the empty string satisfies the filter built for \<open>failed\<close>, and the client
  derives \<open>completed\<close>.
\<close>

theorem status_filter_counterexample:
  "satisfiesFilter (buildFilter ''all'' ''all'' ''pending'') job_reset_with_error
   \<and> getJobStatus job_reset_with_error = ''failed''
   \<and> satisfiesFilter (buildFilter ''all'' ''all'' ''failed'') job_empty_error
   \<and> getJobStatus job_empty_error = ''completed''"
  by (simp add: filter_defs job_reset_with_error_def job_empty_error_def getJobStatus_def
      truthy_def)

text \<open>
  C2, amended. For every job whose lock timestamp and last error are not the empty string,
  and for every task and queue filter: the job satisfies the filter built for \<open>running\<close>,
  \<open>failed\<close> or \<open>completed\<close> if and only if it satisfies the filter built without a status
  and \<open>getJobStatus\<close> derives that status. It satisfies the filter built for \<open>pending\<close>
  if and only if it satisfies the filter built without a status, \<open>getJobStatus\<close> derives
  \<open>pending\<close> or \<open>failed\<close>, and its attempts are 0.
\<close>

theorem status_filter_agrees:
  assumes "lockedAt j \<noteq> Some []" and "lastError j \<noteq> Some []"
  shows "(satisfiesFilter (buildFilter t q ''running'') j
            = (satisfiesFilter (buildFilter t q ''all'') j \<and> getJobStatus j = ''running''))
       \<and> (satisfiesFilter (buildFilter t q ''failed'') j
            = (satisfiesFilter (buildFilter t q ''all'') j \<and> getJobStatus j = ''failed''))
       \<and> (satisfiesFilter (buildFilter t q ''completed'') j
            = (satisfiesFilter (buildFilter t q ''all'') j \<and> getJobStatus j = ''completed''))
       \<and> (satisfiesFilter (buildFilter t q ''pending'') j
            = (satisfiesFilter (buildFilter t q ''all'') j
               \<and> (getJobStatus j = ''pending'' \<or> getJobStatus j = ''failed'')
               \<and> attempts j = 0))"
  using assms
  by (auto simp add: buildFilter_running buildFilter_failed buildFilter_completed
        buildFilter_pending getJobStatus_def truthy_present)

theorem status_filter_agrees_witness:
  "lockedAt job_awaiting_retry \<noteq> Some [] \<and> lastError job_awaiting_retry \<noteq> Some []
   \<and> getJobStatus job_awaiting_retry = ''failed''
   \<and> satisfiesFilter (buildFilter ''all'' ''all'' ''failed'') job_awaiting_retry
   \<and> \<not> satisfiesFilter (buildFilter ''all'' ''all'' ''running'') job_awaiting_retry
   \<and> \<not> satisfiesFilter (buildFilter ''all'' ''all'' ''completed'') job_awaiting_retry
   \<and> \<not> satisfiesFilter (buildFilter ''all'' ''all'' ''pending'') job_awaiting_retry"
proof -
  have present: "lockedAt job_awaiting_retry \<noteq> Some []" "lastError job_awaiting_retry \<noteq> Some []"
    by (simp_all add: job_awaiting_retry_def)
  have status: "getJobStatus job_awaiting_retry = ''failed''"
    by (simp add: job_awaiting_retry_def getJobStatus_def truthy_def)
  have unfiltered: "satisfiesFilter (buildFilter ''all'' ''all'' ''all'') job_awaiting_retry"
    by (simp add: buildFilter_def satisfiesFilter_def)
  have one: "attempts job_awaiting_retry = 1"
    by (simp add: job_awaiting_retry_def)
  show ?thesis
    using status_filter_agrees [OF present, of "''all''" "''all''"] present status unfiltered one
    by simp
qed

section \<open>Dashboard statistics\<close>

lemmas App_defs = App_pending_def App_running_def App_failed_def App_completed_def

lemmas Dashboard_defs =
  Dashboard_pending_def Dashboard_running_def Dashboard_failed_def Dashboard_completed_def

text \<open>
  C3, as stated, fails. A job that failed once and waits for its next attempt has
  consistent fields and satisfies both the \<open>pending\<close> and the \<open>failed\<close> predicate of
  \<open>App.jsx\<close>; a job that is locked for its last attempt satisfies both the \<open>running\<close> and
  the \<open>failed\<close> predicate of the Dashboard component.
\<close>

theorem status_predicates_counterexample:
  "consistent_fields job_awaiting_retry
   \<and> App_pending job_awaiting_retry \<and> App_failed job_awaiting_retry
   \<and> consistent_fields job_in_last_attempt
   \<and> Dashboard_running job_in_last_attempt \<and> Dashboard_failed job_in_last_attempt"
  by (simp add: consistent_fields_def job_awaiting_retry_def job_in_last_attempt_def
      App_defs Dashboard_defs truthy_def)

text \<open>
  C3, amended. Every job with max-attempts of at least 1 satisfies at least one of the four
  predicates, in \<open>App.jsx\<close> and in the Dashboard component. In both, \<open>running\<close> excludes
  \<open>pending\<close> and \<open>completed\<close>, and \<open>failed\<close> excludes \<open>completed\<close>; in \<open>App.jsx\<close>
  \<open>running\<close> excludes \<open>failed\<close>; in the Dashboard component \<open>failed\<close> excludes
  \<open>pending\<close>. Nothing is said of the other pairs.
\<close>

theorem status_predicates_cover:
  assumes "1 \<le> maxAttempts j"
  shows "(App_pending j \<or> App_running j \<or> App_failed j \<or> App_completed j)
       \<and> \<not> (App_running j \<and> App_pending j)
       \<and> \<not> (App_running j \<and> App_failed j)
       \<and> \<not> (App_running j \<and> App_completed j)
       \<and> \<not> (App_failed j \<and> App_completed j)
       \<and> (Dashboard_pending j \<or> Dashboard_running j \<or> Dashboard_failed j
            \<or> Dashboard_completed j)
       \<and> \<not> (Dashboard_running j \<and> Dashboard_pending j)
       \<and> \<not> (Dashboard_running j \<and> Dashboard_completed j)
       \<and> \<not> (Dashboard_failed j \<and> Dashboard_pending j)
       \<and> \<not> (Dashboard_failed j \<and> Dashboard_completed j)"
  using assms by (auto simp add: App_defs Dashboard_defs)

theorem status_predicates_cover_witness:
  "1 \<le> maxAttempts job_in_last_attempt
   \<and> App_running job_in_last_attempt
   \<and> \<not> App_pending job_in_last_attempt
   \<and> \<not> App_failed job_in_last_attempt
   \<and> \<not> App_completed job_in_last_attempt"
proof -
  have bound: "1 \<le> maxAttempts job_in_last_attempt"
    by (simp add: job_in_last_attempt_def)
  have locked: "App_running job_in_last_attempt"
    by (simp add: job_in_last_attempt_def App_running_def truthy_def)
  show ?thesis
    using status_predicates_cover [OF bound] bound locked by blast
qed







text \<open>
  C10. For all counts in the server's response, also those where running + failed +
  completed exceeds the total and those that are missing, the derived pending count is not
  negative.
\<close>

theorem pending_count_not_negative: "0 \<le> pending (jobStats_counts d)"
  by (simp add: jobStats_counts_def Let_def)

section \<open>Action mutations\<close>

text \<open>
  C5. Each of the three resolvers returns a boolean and never an error: \<open>true\<close> when the
  query succeeds, \<open>false\<close> when it throws, whatever the error is. It writes the caught
  error to the server's console, and nothing when the query succeeds.
\<close>

theorem resolvers_swallow_errors:
  "fst (retryJob pgClient jobId w)
     = Inr (case pgClient (retryJob_query jobId) of Inr _ \<Rightarrow> True | Inl _ \<Rightarrow> False)
   \<and> console_error (snd (retryJob pgClient jobId w))
     = console_error w
       @ (case pgClient (retryJob_query jobId) of
            Inr _ \<Rightarrow> [] | Inl e \<Rightarrow> [(''Error retrying job:'', e)])
   \<and> fst (cancelJob pgClient jobId w)
     = Inr (case pgClient (cancelJob_query jobId) of Inr _ \<Rightarrow> True | Inl _ \<Rightarrow> False)
   \<and> console_error (snd (cancelJob pgClient jobId w))
     = console_error w
       @ (case pgClient (cancelJob_query jobId) of
            Inr _ \<Rightarrow> [] | Inl e \<Rightarrow> [(''Error cancelling job:'', e)])
   \<and> fst (completeJob pgClient jobId w)
     = Inr (case pgClient (completeJob_query jobId) of Inr _ \<Rightarrow> True | Inl _ \<Rightarrow> False)
   \<and> console_error (snd (completeJob pgClient jobId w))
     = console_error w
       @ (case pgClient (completeJob_query jobId) of
            Inr _ \<Rightarrow> [] | Inl e \<Rightarrow> [(''Error completing job:'', e)])"
  by (simp add: retryJob_def cancelJob_def completeJob_def Let_def split: sum.splits)

text \<open>
  C7. For every job identifier and every database client, \<open>cancelJob\<close> sends exactly one
  query: \<open>permanently_fail_jobs\<close> with the array of that one identifier and the reason
  \<open>Cancelled by user\<close>.
\<close>

theorem cancelJob_query_sent:
  "queries (snd (cancelJob pgClient jobId w))
     = queries w
       @ [(''SELECT graphile_worker.permanently_fail_jobs($1::bigint[], $2)'',
           [SqlArray [SqlText jobId], SqlText ''Cancelled by user''])]"
  by (simp add: cancelJob_def cancelJob_query_def Let_def split: sum.splits)

section \<open>Polling intervals\<close>

text \<open>
  C8, as stated, fails: \<open>JobDetails.jsx\<close> polls every 2 seconds, which is less than 5
  seconds.
\<close>

theorem poll_interval_counterexample:
  "pollInterval JobDetails = 2000 \<and> \<not> 5000 \<le> pollInterval JobDetails"
  by simp

text \<open>
  C8, amended. Every polling interval of the client lies between 2 and 30 seconds
  inclusive, and every one but that of \<open>JobDetails.jsx\<close> between 5 and 30 seconds
  inclusive.
\<close>

theorem poll_interval_bounds:
  "2000 \<le> pollInterval v \<and> pollInterval v \<le> 30000
   \<and> (v \<noteq> JobDetails \<longrightarrow> 5000 \<le> pollInterval v)"
  by (cases v) simp_all

theorem poll_interval_bounds_witness:
  "JobDetails_page \<noteq> JobDetails \<and> 5000 \<le> pollInterval JobDetails_page
   \<and> pollInterval JobDetails_page \<le> 30000"
  using poll_interval_bounds [of JobDetails_page] by blast

section \<open>Numbers in text\<close>

lemma spacing_small: "m < 2 ^ 53 \<Longrightarrow> spacing m = 1"
  by (simp add: spacing.simps)

lemma spacing_big: "2 ^ 53 \<le> m \<Longrightarrow> spacing m = 2 * spacing (m div 2)"
  by (subst spacing.simps) simp

lemma spacing_pos: "0 < spacing m"
proof (induction m rule: spacing.induct)
  case (1 m)
  then show ?case by (cases "m < 2 ^ 53") (simp_all add: spacing_small spacing_big)
qed

lemma spacing_le: "2 ^ 52 \<le> m \<Longrightarrow> 2 ^ 52 * spacing m \<le> m"
proof (induction m rule: spacing.induct)
  case (1 m)
  show ?case
  proof (cases "m < 2 ^ 53")
    case True
    then show ?thesis using "1.prems" by (simp add: spacing_small)
  next
    case False
    then have "2 ^ 52 \<le> m div 2" by simp
    with False "1.IH" have "2 ^ 52 * spacing (m div 2) \<le> m div 2" by simp
    then have "2 ^ 52 * (2 * spacing (m div 2)) \<le> 2 * (m div 2)" by simp
    also have "\<dots> \<le> m" by simp
    finally show ?thesis using False by (simp add: spacing_big)
  qed
qed

lemma roundEven_small: "m \<le> 2 ^ 53 \<Longrightarrow> roundEven m = m"
proof (cases "m < 2 ^ 53")
  case True
  then show ?thesis by (simp add: roundEven_def spacing_small)
next
  case False
  assume "m \<le> 2 ^ 53"
  with False have m: "m = 2 ^ 53" by simp
  have "spacing (2 ^ 53) = 2" by (simp add: spacing_big spacing_small)
  then show ?thesis by (simp add: roundEven_def m)
qed

lemma roundEven_big:
  assumes "2 ^ 53 \<le> m"
  shows "2 ^ 53 \<le> roundEven m"
proof -
  have q2: "2 \<le> spacing m"
    using assms spacing_pos [of "m div 2"] by (simp add: spacing_big)
  have "2 ^ 52 * spacing m \<le> m" using assms by (intro spacing_le) simp
  then have "2 ^ 52 \<le> m div spacing m"
    using q2 by (simp add: less_eq_div_iff_mult_less_eq)
  then have "2 ^ 52 * 2 \<le> (m div spacing m) * spacing m"
    using q2 by (intro mult_le_mono) simp_all
  moreover have "(m div spacing m) * spacing m \<le> roundEven m"
    by (simp add: roundEven_def Let_def)
  ultimately show ?thesis by simp
qed

lemma roundEven_reads_small:
  assumes "roundEven v = x" and "x < 2 ^ 53"
  shows "v = x"
proof (cases "v \<le> 2 ^ 53")
  case True
  then show ?thesis using assms roundEven_small by simp
next
  case False
  then have "2 ^ 53 \<le> roundEven v" by (intro roundEven_big) simp
  then show ?thesis using assms by simp
qed

lemma find_holds: "find P xs = Some v \<Longrightarrow> P v"
  by (induction xs) (auto split: if_splits)

lemma shortestDecimal_small:
  assumes "x < 2 ^ 53"
  shows "shortestDecimal x = x"
proof (cases "find (\<lambda>v. roundEven v = x) (concat (map (candidates x) [1..<18]))")
  case None
  then show ?thesis unfolding shortestDecimal_def by (simp only: option.case)
next
  case (Some v)
  then have "roundEven v = x" by (rule find_holds)
  then have "v = x" using assms by (rule roundEven_reads_small)
  then show ?thesis unfolding shortestDecimal_def using Some by (simp only: option.case)
qed

lemma double_small: "0 \<le> n \<Longrightarrow> n \<le> 2 ^ 53 \<Longrightarrow> double n = n"
proof -
  assume n: "0 \<le> n" "n \<le> 2 ^ 53"
  then have "nat n \<le> 2 ^ 53" by (simp add: nat_le_iff)
  then show ?thesis using n by (simp add: double_def roundEven_small)
qed

lemma toNumber_small: "0 \<le> n \<Longrightarrow> n \<le> 2 ^ 53 \<Longrightarrow> toNumber n = Finite n"
  by (simp add: toNumber_def double_small)

lemma digit_cases: "d < 10 \<Longrightarrow> d \<in> {0, 1, 2, 3, 4, 5, 6, 7, 8, 9::nat}"
  by auto

lemma digitChar_isDigit: "d < 10 \<Longrightarrow> isDigit (digitChar d)"
  using digit_cases [of d] by (auto simp add: isDigit_def digitChar_def)

lemma digitValue_digitChar: "d < 10 \<Longrightarrow> digitValue (digitChar d) = int d"
  using digit_cases [of d] by (auto simp add: digitValue_def digitChar_def)

lemma digitsOf_digits: "list_all isDigit (digitsOf n)"
proof (induction n rule: digitsOf.induct)
  case (1 n)
  show ?case
  proof (cases "n < 10")
    case True
    then show ?thesis by (simp add: digitsOf.simps [of n] digitChar_isDigit)
  next
    case False
    then show ?thesis using 1 by (simp add: digitsOf.simps [of n] digitChar_isDigit)
  qed
qed

lemma digitsOf_not_Nil: "digitsOf n \<noteq> []"
  by (simp add: digitsOf.simps [of n])

lemma digitsOf_value: "foldl (\<lambda>a c. 10 * a + digitValue c) 0 (digitsOf n) = int n"
proof (induction n rule: digitsOf.induct)
  case (1 n)
  show ?case
  proof (cases "n < 10")
    case True
    then show ?thesis by (simp add: digitsOf.simps [of n] digitValue_digitChar)
  next
    case False
    then have "foldl (\<lambda>a c. 10 * a + digitValue c) 0 (digitsOf n)
                 = 10 * int (n div 10) + int (n mod 10)"
      using 1 by (simp add: digitsOf.simps [of n] digitValue_digitChar)
    moreover have "10 * (n div 10) + n mod 10 = n" by presburger
    then have "10 * int (n div 10) + int (n mod 10) = int n" by linarith
    ultimately show ?thesis by simp
  qed
qed

lemma digitsOf_length: "0 < k \<Longrightarrow> n < 10 ^ k \<Longrightarrow> length (digitsOf n) \<le> k"
proof (induction n arbitrary: k rule: digitsOf.induct)
  case (1 n)
  show ?case
  proof (cases "n < 10")
    case True
    then show ?thesis using "1.prems" by (simp add: digitsOf.simps [of n])
  next
    case False
    obtain j where k: "k = Suc j" using "1.prems" by (cases k) simp_all
    have "0 < j"
    proof (rule ccontr)
      assume "\<not> 0 < j"
      then show False using False "1.prems" k by simp
    qed
    moreover have "n div 10 < 10 ^ j"
      using "1.prems" k by (simp add: less_mult_imp_div_less mult.commute)
    ultimately have "length (digitsOf (n div 10)) \<le> j"
      using False "1.IH" by simp
    then show ?thesis using False k by (simp add: digitsOf.simps [of n])
  qed
qed

lemma takeWhile_digitsOf: "takeWhile isDigit (digitsOf n) = digitsOf n"
  using digitsOf_digits [of n] by (simp add: list_all_iff)

lemma hd_digitsOf: "isDigit (hd (digitsOf n))"
  using digitsOf_digits [of n] digitsOf_not_Nil [of n]
  by (cases "digitsOf n") simp_all

lemma isDigit_plain: "isDigit c \<Longrightarrow> c \<noteq> CHR ''-'' \<and> c \<noteq> CHR ''+''"
  by (auto simp add: isDigit_def)

lemma whiteSpace_heads: "list_all (\<lambda>w. w \<noteq> [] \<and> \<not> isDigit (hd w)) whiteSpace"
  by (simp add: whiteSpace_def isDigit_def)

lemma find_none: "list_all (\<lambda>w. \<not> P w) ws \<Longrightarrow> find P ws = None"
  by (induction ws) simp_all

lemma whiteSpacePrefix_digit:
  assumes "isDigit c"
  shows "whiteSpacePrefix (c # cs) = None"
proof -
  have "list_all (\<lambda>w. \<not> take (length w) (c # cs) = w) whiteSpace"
  proof -
    have "\<not> take (length w) (c # cs) = w" if "w \<noteq> [] \<and> \<not> isDigit (hd w)" for w
    proof
      assume eq: "take (length w) (c # cs) = w"
      from that obtain a as where w: "w = a # as" by (cases w) simp_all
      with eq have "a = c" by simp
      with that w assms show False by simp
    qed
    then show ?thesis using whiteSpace_heads by (simp add: list_all_iff)
  qed
  then show ?thesis unfolding whiteSpacePrefix_def by (rule find_none)
qed

lemma skipWhiteSpace_digit: "isDigit c \<Longrightarrow> skipWhiteSpace (c # cs) = c # cs"
  by (simp add: skipWhiteSpace.simps [of "c # cs"] whiteSpacePrefix_digit)

lemma skipWhiteSpace_digitsOf: "skipWhiteSpace (digitsOf n) = digitsOf n"
  using hd_digitsOf [of n] digitsOf_not_Nil [of n]
  by (cases "digitsOf n") (simp_all add: skipWhiteSpace_digit)

lemma parseInt_digitsOf: "parseInt (digitsOf n) = toNumber (int n)"
  using hd_digitsOf [of n] isDigit_plain [of "hd (digitsOf n)"]
  by (simp add: parseInt_def skipWhiteSpace_digitsOf takeWhile_digitsOf digitsOf_not_Nil
      digitsOf_value)

lemma numberDigits_small: "x < 2 ^ 53 \<Longrightarrow> numberDigits x = digitsOf x"
proof -
  assume x: "x < 2 ^ 53"
  then have "x < 10 ^ 21" by simp
  then have "length (digitsOf x) \<le> 21" by (intro digitsOf_length) simp_all
  then show ?thesis using x by (simp add: numberDigits_def shortestDecimal_small Let_def)
qed

lemmas spacing_eval = spacing_small spacing_big

lemmas parse_eval =
  parseInt_def skipWhiteSpace_digit isDigit_def digitValue_def toNumber_def double_def
  roundEven_def spacing_eval

lemma parseInt_1: "parseInt ''1'' = Finite 1"
  by (simp add: parse_eval)

lemma digitsOf_2_53: "digitsOf 9007199254740992 = ''9007199254740992''"
  by (simp add: digitsOf.simps digitChar_def)

lemma digit_counts:
  "[Suc 0..<18] = [1, 2, 3, 4, 5, 6, 7, 8, 9, 10, 11, 12, 13, 14, 15, 16, 17]"
  by (simp add: upt_rec)

lemma shortestDecimal_2_53: "shortestDecimal 9007199254740992 = 9007199254740992"
  by (simp add: shortestDecimal_def candidates_def digitsOf_2_53 digit_counts roundEven_def
      spacing_eval Let_def)

lemma numberDigits_2_53: "numberDigits 9007199254740992 = ''9007199254740992''"
  by (simp add: numberDigits_def shortestDecimal_2_53 digitsOf_2_53)

lemma String_number_exact:
  assumes "0 \<le> n" and "n \<le> 2 ^ 53"
  shows "String_number n = digitsOf (nat n)"
proof (cases "n = 2 ^ 53")
  case True
  then show ?thesis by (simp add: String_number_def numberDigits_2_53 digitsOf_2_53)
next
  case False
  with assms have "nat n < 2 ^ 53" by (simp add: nat_less_iff)
  then show ?thesis using assms by (simp add: String_number_def numberDigits_small)
qed

section \<open>Pagination controls\<close>

text \<open>
  C9. With at least one page and the current page index in range, every page index that a
  control of the Pagination component passes to \<open>onPageChange\<close> is in range: for the
  four buttons and for every text typed into the page-number input.
\<close>

theorem onPageChange_in_range:
  assumes "1 \<le> totalPages" and "0 \<le> page" and "page \<le> totalPages - 1"
    and "Pagination_onPageChange page totalPages hasNextPage hasPreviousPage ctl = Some p"
  shows "0 \<le> p \<and> p \<le> totalPages - 1"
  using assms
  by (cases ctl)
     (auto simp add: Pagination_onPageChange_def split: if_splits number.splits)

lemma page_input_99: "Pagination_onPageChange 1 3 True True (PageInput ''99'') = Some 2"
  by (simp add: Pagination_onPageChange_def or_default_def parse_eval)

theorem onPageChange_in_range_witness:
  "Pagination_onPageChange 1 3 True True (PageInput ''99'') = Some 2
   \<and> (0::int) \<le> 2 \<and> (2::int) \<le> 3 - 1"
  using onPageChange_in_range [of 3 1 True True "PageInput ''99''" 2] page_input_99
  by simp

section \<open>Filter state and the URL\<close>

lemma get_filter_other:
  "params_get (filter (\<lambda>(a, b). a \<noteq> k) ps) k' = (if k' = k then None else params_get ps k')"
  by (induction ps) (auto simp add: params_get_def)

lemma get_set:
  "params_get (params_set ps k v) k' = (if k' = k then Some v else params_get ps k')"
proof (induction ps)
  case Nil
  then show ?case by (simp add: params_get_def)
next
  case (Cons a ps)
  obtain k0 v0 where a: "a = (k0, v0)" by (cases a)
  show ?case
  proof (cases "k0 = k")
    case True
    then show ?thesis using get_filter_other [of k ps k'] by (simp add: a params_get_def)
  next
    case False
    then show ?thesis using Cons by (auto simp add: a params_get_def)
  qed
qed

lemma get_empty: "params_get [] k = None"
  by (simp add: params_get_def)

text \<open>The effect on a change of the URL leaves the state that the initialisers compute.\<close>

lemma stateFromUrl_initialState: "stateFromUrl ps st = initialState ps"
  by (cases st) (simp add: stateFromUrl_def initialState_def Let_def)

lemma get_q:
  "params_get (stateToParams st) ''q''
     = (if searchTerm st = [] then None else Some (searchTerm st))"
  by (simp add: stateToParams_def Let_def get_set get_empty del: params_set.simps)

lemma get_status:
  "params_get (stateToParams st) ''status''
     = (if statusFilter st = [] \<or> statusFilter st = ''all'' then None
        else Some (statusFilter st))"
  by (simp add: stateToParams_def Let_def get_set get_empty del: params_set.simps)

lemma get_task:
  "params_get (stateToParams st) ''task''
     = (if taskFilter st = [] \<or> taskFilter st = ''all'' then None else Some (taskFilter st))"
  by (simp add: stateToParams_def Let_def get_set get_empty del: params_set.simps)

lemma get_queue:
  "params_get (stateToParams st) ''queue''
     = (if queueFilter st = [] \<or> queueFilter st = ''all'' then None
        else Some (queueFilter st))"
  by (simp add: stateToParams_def Let_def get_set get_empty del: params_set.simps)

lemma get_page:
  "params_get (stateToParams st) ''page''
     = (if double (or_zero (currentPage st) + 1) = 1 then None
        else Some (String_number (double (or_zero (currentPage st) + 1))))"
  by (simp add: stateToParams_def Let_def get_set get_empty del: params_set.simps)

text \<open>Below \<open>2 ^ 53\<close> the page index is read back as it was written.\<close>

lemma pageIndex_roundtrip:
  assumes "0 \<le> currentPage st" and "currentPage st < 2 ^ 53"
  shows "pageIndex (stateToParams st) = currentPage st"
proof (cases "currentPage st = 0")
  case True
  then show ?thesis
    by (simp add: pageIndex_def get_page or_zero_def double_small or_default_def parseInt_1)
next
  case False
  let ?n = "currentPage st + 1"
  have n: "0 \<le> ?n" "?n \<le> 2 ^ 53" "?n \<noteq> 1" using assms False by simp_all
  have written: "params_get (stateToParams st) ''page'' = Some (digitsOf (nat ?n))"
    using n False by (simp add: get_page or_zero_def double_small String_number_exact)
  have "parseInt (digitsOf (nat ?n)) = Finite ?n"
    using n by (simp add: parseInt_digitsOf toNumber_small)
  then show ?thesis
    using assms written by (simp add: pageIndex_def or_default_def digitsOf_not_Nil double_small)
qed

text \<open>
  The states that the view takes have non-empty status, task and queue filters and a page
  index that is not negative: the initialisers and the effect on a change of the URL put
  \<open>all\<close> for a missing or empty parameter, and the handler of the controls stores the
  non-empty value of a select.
\<close>

lemma initialState_filters:
  "statusFilter (initialState ps) \<noteq> [] \<and> taskFilter (initialState ps) \<noteq> []
   \<and> queueFilter (initialState ps) \<noteq> [] \<and> 0 \<le> currentPage (initialState ps)"
  by (simp add: initialState_def or_default_def pageIndex_def double_def
      split: option.splits number.splits)

lemma handleFilterChange_filters:
  assumes "filterType = ''search'' \<or> v \<noteq> []"
    and "statusFilter st \<noteq> []" and "taskFilter st \<noteq> []" and "queueFilter st \<noteq> []"
  shows "statusFilter (handleFilterChange filterType v st) \<noteq> []
         \<and> taskFilter (handleFilterChange filterType v st) \<noteq> []
         \<and> queueFilter (handleFilterChange filterType v st) \<noteq> []
         \<and> 0 \<le> currentPage (handleFilterChange filterType v st)"
  using assms by (auto simp add: handleFilterChange_def Let_def)

lemma page_above_2_53_state:
  "page_above_2_53 =
     \<lparr>searchTerm = [], statusFilter = ''all'', taskFilter = ''all'', queueFilter = ''all'',
      currentPage = 9007199254740992\<rparr>"
  by (simp add: page_above_2_53_def initialState_def pageIndex_def params_get_def
      or_default_def parse_eval)

lemma page_above_2_53_params:
  "stateToParams page_above_2_53 = [(''page'', ''9007199254740992'')]"
  by (simp add: page_above_2_53_state stateToParams_def or_zero_def double_def roundEven_def
      spacing_eval String_number_def numberDigits_2_53)

lemma page_above_2_53_reload:
  "initialState [(''page'', ''9007199254740992'')] =
     \<lparr>searchTerm = [], statusFilter = ''all'', taskFilter = ''all'', queueFilter = ''all'',
      currentPage = 9007199254740991\<rparr>"
  by (simp add: initialState_def pageIndex_def params_get_def or_default_def parse_eval)

lemma digitsOf_10_21: "digitsOf 1000000000000000000000 = ''1000000000000000000000''"
  by (simp add: digitsOf.simps digitChar_def)

lemma numberDigits_10_21: "numberDigits 1000000000000000000000 = ''1e+21''"
proof -
  have "shortestDecimal 1000000000000000000000 = 1000000000000000000000"
    by (simp add: shortestDecimal_def candidates_def digitsOf_10_21 digit_counts roundEven_def
        spacing_eval Let_def)
  then show ?thesis
    by (simp add: numberDigits_def digitsOf_10_21) (simp add: digitsOf.simps digitChar_def)
qed

lemma page_10_21_state:
  "page_10_21 =
     \<lparr>searchTerm = [], statusFilter = ''all'', taskFilter = ''all'', queueFilter = ''all'',
      currentPage = 1000000000000000000000\<rparr>"
  by (simp add: page_10_21_def initialState_def pageIndex_def params_get_def
      or_default_def parse_eval)

lemma page_10_21_params: "stateToParams page_10_21 = [(''page'', ''1e+21'')]"
  by (simp add: page_10_21_state stateToParams_def or_zero_def double_def roundEven_def
      spacing_eval String_number_def numberDigits_10_21)

lemma page_10_21_reload:
  "initialState [(''page'', ''1e+21'')] =
     \<lparr>searchTerm = [], statusFilter = ''all'', taskFilter = ''all'', queueFilter = ''all'',
      currentPage = 0\<rparr>"
  by (simp add: initialState_def pageIndex_def params_get_def or_default_def parse_eval)

text \<open>
  C6, as stated, fails. The address \<open>?page=9007199254740994\<close> gives the view the page
  index \<open>2 ^ 53\<close>, with every filter \<open>all\<close>; the page number \<open>2 ^ 53 + 1\<close> is not
  a number of the view and is written as \<open>9007199254740992\<close>, from which the view
  initialises the page index \<open>2 ^ 53 - 1\<close>. The address with page \<open>10 ^ 21\<close> gives
  the page index \<open>10 ^ 21\<close>, which is written as \<open>1e+21\<close> and read as page 1, index 0.
\<close>

theorem filter_state_roundtrip_counterexample:
  "statusFilter page_above_2_53 = ''all'' \<and> taskFilter page_above_2_53 = ''all''
   \<and> queueFilter page_above_2_53 = ''all''
   \<and> currentPage page_above_2_53 = 9007199254740992
   \<and> stateToParams page_above_2_53 = [(''page'', ''9007199254740992'')]
   \<and> currentPage (initialState (stateToParams page_above_2_53)) = 9007199254740991
   \<and> initialState (stateToParams page_above_2_53) \<noteq> page_above_2_53
   \<and> currentPage page_10_21 = 1000000000000000000000
   \<and> stateToParams page_10_21 = [(''page'', ''1e+21'')]
   \<and> currentPage (initialState (stateToParams page_10_21)) = 0"
  by (simp add: page_above_2_53_params page_above_2_53_reload page_10_21_params
      page_10_21_reload)
     (simp add: page_above_2_53_state page_10_21_state)

text \<open>
  C6, amended. For every filter state of the job list with any search term, a status, a
  task and a queue filter none of which is empty (as in every state the view takes) and a
  page index of at least 0 and below \<open>2 ^ 53\<close> (a 1-based page number from 1 to
  \<open>2 ^ 53\<close>): writing the state into the URL parameters and initialising the state from
  them gives the same state.
\<close>

theorem filter_state_roundtrip:
  assumes "statusFilter st \<noteq> []" and "taskFilter st \<noteq> []" and "queueFilter st \<noteq> []"
    and "0 \<le> currentPage st" and "currentPage st < 2 ^ 53"
  shows "initialState (stateToParams st) = st"
  using assms
  by (cases st)
     (simp add: initialState_def get_q get_status get_task get_queue or_default_def
        pageIndex_roundtrip)

theorem filter_state_roundtrip_witness:
  "statusFilter failed_mail_page_12 \<noteq> [] \<and> taskFilter failed_mail_page_12 \<noteq> []
   \<and> queueFilter failed_mail_page_12 \<noteq> [] \<and> 0 \<le> currentPage failed_mail_page_12
   \<and> currentPage failed_mail_page_12 < 2 ^ 53
   \<and> stateToParams failed_mail_page_12
       = [(''q'', ''mail''), (''status'', ''failed''), (''queue'', ''default''),
          (''page'', ''12'')]
   \<and> initialState (stateToParams failed_mail_page_12) = failed_mail_page_12"
proof -
  have filters: "statusFilter failed_mail_page_12 \<noteq> []" "taskFilter failed_mail_page_12 \<noteq> []"
    "queueFilter failed_mail_page_12 \<noteq> []" "0 \<le> currentPage failed_mail_page_12"
    "currentPage failed_mail_page_12 < 2 ^ 53"
    by (simp_all add: failed_mail_page_12_def)
  have "String_number 12 = ''12''"
    by (simp add: String_number_exact digitsOf.simps digitChar_def)
  then have params: "stateToParams failed_mail_page_12
       = [(''q'', ''mail''), (''status'', ''failed''), (''queue'', ''default''),
          (''page'', ''12'')]"
    by (simp add: stateToParams_def failed_mail_page_12_def or_zero_def double_small)
  show ?thesis
    using filter_state_roundtrip [OF filters] filters params by simp
qed

end
